theory Spec2Isabelle
  imports Complex_Main "HOL-Library.Sublist"
begin

section \<open>Python numbers\<close>

text \<open>
  The script computes with Python \<^verbatim>\<open>float\<close>s, which are IEEE 754 binary64 numbers.
  A finite float is a rational number, so a float is modelled by its exact value and
  every arithmetic operation is the exact operation followed by rounding to the nearest
  representable number, ties to even (\<open>rnd\<close>). Infinities and NaN are not modelled:
  the values the external prober prints are finite decimal numbers. Results are assumed
  to stay below the overflow threshold \<open>2 ^ 1024\<close>.
\<close>

type_synonym pyfloat = rat

definition two_pow :: "int \<Rightarrow> rat" where
  "two_pow e = (if 0 \<le> e then 2 ^ nat e else 1 / 2 ^ nat (- e))"

text \<open>Python's \<^verbatim>\<open>round(x)\<close> with one argument: the nearest integer, ties to even.\<close>

definition py_round :: "rat \<Rightarrow> int" where
  "py_round x =
     (let f = \<lfloor>x\<rfloor>; d = x - of_int f
      in if d < 1 / 2 then f
         else if 1 / 2 < d then f + 1
         else if even f then f else f + 1)"

text \<open>\<^verbatim>\<open>int.bit_length\<close>: the number of binary digits of a positive integer.\<close>

function bit_length :: "int \<Rightarrow> int" where
  "bit_length n = (if n \<le> 0 then 0 else 1 + bit_length (n div 2))"
  by pat_completeness auto
termination
  by (relation "measure nat") auto

declare bit_length.simps [simp del]

text \<open>For \<open>x > 0\<close>, \<open>ilog2 x\<close> is the exponent \<open>k\<close> with \<open>2^k \<le> x < 2^(k+1)\<close>.\<close>

definition ilog2 :: "rat \<Rightarrow> int" where
  "ilog2 x =
     (let p = fst (quotient_of x); q = snd (quotient_of x);
          k = bit_length p - bit_length q
      in if two_pow k \<le> x then k else k - 1)"

text \<open>
  Rounding to binary64: 53 significant bits, so the unit in the last place of \<open>x\<close> is
  \<open>2 ^ (ilog2 \<bar>x\<bar> - 52)\<close>, and never below the subnormal spacing \<open>2 ^ - 1074\<close>.
\<close>

definition rnd :: "rat \<Rightarrow> pyfloat" where
  "rnd x =
     (if x = 0 then 0
      else let e = max (ilog2 \<bar>x\<bar> - 52) (- 1074)
           in of_int (py_round (x / two_pow e)) * two_pow e)"

definition fsub :: "pyfloat \<Rightarrow> pyfloat \<Rightarrow> pyfloat" where
  "fsub a b = rnd (a - b)"

definition fdiv :: "pyfloat \<Rightarrow> pyfloat \<Rightarrow> pyfloat" where
  "fdiv a b = rnd (a / b)"

text \<open>\<^verbatim>\<open>float(n)\<close> of an integer, also the implicit conversion in mixed arithmetic.\<close>

definition float_of_int :: "int \<Rightarrow> pyfloat" where
  "float_of_int n = rnd (of_int n)"

text \<open>A float literal of the source denotes the float nearest to its decimal value.\<close>

definition float_lit :: "rat \<Rightarrow> pyfloat" where
  "float_lit q = rnd q"

text \<open>Truthiness of \<^verbatim>\<open>None\<close>-or-number values: \<^verbatim>\<open>None\<close> and zero are false.\<close>

definition truthy_int :: "int option \<Rightarrow> bool" where
  "truthy_int v = (case v of None \<Rightarrow> False | Some n \<Rightarrow> n \<noteq> 0)"

definition truthy_float :: "pyfloat option \<Rightarrow> bool" where
  "truthy_float v = (case v of None \<Rightarrow> False | Some x \<Rightarrow> x \<noteq> 0)"

section \<open>Python strings\<close>

definition digit_char :: "int \<Rightarrow> char" where
  "digit_char d = ''0123456789'' ! nat d"

function str_nat :: "int \<Rightarrow> string" where
  "str_nat n = (if n < 10 then [digit_char n] else str_nat (n div 10) @ [digit_char (n mod 10)])"
  by pat_completeness auto
termination
  by (relation "measure nat") auto

declare str_nat.simps [simp del]

text \<open>\<^verbatim>\<open>str(n)\<close> of an integer.\<close>

definition str_int :: "int \<Rightarrow> string" where
  "str_int n = (if n < 0 then CHR ''-'' # str_nat (- n) else str_nat n)"

text \<open>
  \<^verbatim>\<open>f"{x:.3f}"\<close>: the exact value of the float, correctly rounded to three decimals
  (ties to even), with the sign of \<open>x\<close>.
\<close>

definition fmt3 :: "pyfloat \<Rightarrow> string" where
  "fmt3 x =
     (let n = py_round (\<bar>x\<bar> * 1000)
      in (if x < 0 then ''-'' else '''') @ str_nat (n div 1000) @ ''.'' @
         [digit_char (n div 100 mod 10), digit_char (n div 10 mod 10), digit_char (n mod 10)])"

text \<open>\<^verbatim>\<open>str.lower\<close> and \<^verbatim>\<open>str.endswith\<close> with a tuple, on ASCII text.\<close>

definition lower_char :: "char \<Rightarrow> char" where
  "lower_char c =
     (let n = of_char c :: nat in if 65 \<le> n \<and> n \<le> 90 then char_of (n + 32) else c)"

definition lower :: "string \<Rightarrow> string" where
  "lower s = map lower_char s"

definition endswith :: "string \<Rightarrow> string list \<Rightarrow> bool" where
  "endswith s sfxs = list_ex (\<lambda>x. suffix x s) sfxs"

section \<open>The frame-rate formatter\<close>

text \<open>
  \<^verbatim>\<open>
  def format_fps_value(fps):
      if fps is None:
          return '25'
      if abs(fps - round(fps)) < 1e-3:
          return str(int(round(fps)))
      return f"{fps:.3f}"
  \<close>
\<close>

definition near_integer :: "pyfloat \<Rightarrow> bool" where
  "near_integer fps = (\<bar>fsub fps (float_of_int (py_round fps))\<bar> < float_lit (1 / 1000))"

definition format_fps_value :: "pyfloat option \<Rightarrow> string" where
  "format_fps_value v =
     (case v of
        None \<Rightarrow> ''25''
      | Some fps \<Rightarrow> if near_integer fps then str_int (py_round fps) else fmt3 fps)"

text \<open>The part of a string after its first decimal point, and the part before it.\<close>

definition decimals :: "string \<Rightarrow> string" where
  "decimals s = drop 1 (dropWhile (\<lambda>c. c \<noteq> CHR ''.'') s)"

definition is_digit :: "char \<Rightarrow> bool" where
  "is_digit c = (c \<in> set ''0123456789'')"

section \<open>Frame-rate resolution\<close>

text \<open>
  Lines 125--133 of \<^verbatim>\<open>convert_250_to_mp4\<close>. \<open>TARGET_FPS\<close> is the module's global,
  \<^verbatim>\<open>None\<close> or an integer; \<open>detected_fps\<close> is what \<^verbatim>\<open>probe_fps\<close> returned.
  \<^verbatim>\<open>
  fps_source = 'automatisch'
  preferred_fps = None
  if TARGET_FPS and int(TARGET_FPS) > 0:
      preferred_fps = float(int(TARGET_FPS))
      fps_source = 'konfiguriert'
  elif detected_fps:
      preferred_fps = detected_fps
  else:
      preferred_fps = 25.0
  \<close>
  The result is the pair \<open>(fps_source, preferred_fps)\<close>.
\<close>

definition resolve_fps :: "int option \<Rightarrow> pyfloat option \<Rightarrow> string \<times> pyfloat" where
  "resolve_fps TARGET_FPS detected_fps =
     (if truthy_int TARGET_FPS \<and> 0 < the TARGET_FPS
      then (''konfiguriert'', float_of_int (the TARGET_FPS))
      else if truthy_float detected_fps then (''automatisch'', the detected_fps)
      else (''automatisch'', float_lit 25))"




section \<open>The encoder command lines\<close>

text \<open>
  A command line is a list of arguments. Every argument is a string, except the filter of
  the second pass, \<^verbatim>\<open>f'setpts=PTS*{multiplier}'\<close>, which is kept as the float it embeds.
\<close>

datatype arg = Str string | Setpts pyfloat

text \<open>The input framing hint of line 158.\<close>

definition input_framing :: "string \<Rightarrow> arg list" where
  "input_framing fps_str = [Str ''-f'', Str ''hevc'', Str ''-framerate'', Str fps_str]"

text \<open>
  Lines 155--171:
  \<^verbatim>\<open>
  cmd_recode = ['ffmpeg', '-y', '-fflags', '+genpts']
  lower = src_path.lower()
  if lower.endswith(('.265', '.h265', '.hevc')) and not has_audio:
      cmd_recode += ['-f', 'hevc', '-framerate', fps_str]
  cmd_recode += ['-i', src_path]
  cmd_recode += [
      '-c:v', 'libx264', '-preset', 'fast', '-crf', '23', '-pix_fmt', 'yuv420p',
      '-r', fps_str, '-filter:v', f'fps={fps_str}', '-fps_mode', 'cfr',
  ]
  if has_audio:
      cmd_recode += ['-c:a', 'aac', '-b:a', '128k']
  else:
      cmd_recode += ['-an']
  cmd_recode += ['-avoid_negative_ts', 'make_zero', '-movflags', '+faststart', dst_path]
  \<close>
\<close>

definition cmd_recode :: "string \<Rightarrow> string \<Rightarrow> bool \<Rightarrow> string \<Rightarrow> arg list" where
  "cmd_recode src_path dst_path has_audio fps_str =
     [Str ''ffmpeg'', Str ''-y'', Str ''-fflags'', Str ''+genpts''] @
     (if endswith (lower src_path) [''.265'', ''.h265'', ''.hevc''] \<and> \<not> has_audio
      then input_framing fps_str else []) @
     [Str ''-i'', Str src_path] @
     [Str ''-c:v'', Str ''libx264'', Str ''-preset'', Str ''fast'', Str ''-crf'', Str ''23'',
      Str ''-pix_fmt'', Str ''yuv420p'',
      Str ''-r'', Str fps_str, Str ''-filter:v'', Str (''fps='' @ fps_str),
      Str ''-fps_mode'', Str ''cfr''] @
     (if has_audio then [Str ''-c:a'', Str ''aac'', Str ''-b:a'', Str ''128k'']
      else [Str ''-an'']) @
     [Str ''-avoid_negative_ts'', Str ''make_zero'', Str ''-movflags'', Str ''+faststart'',
      Str dst_path]"

text \<open>The extensions the outer loop accepts (line 24) and its test of a file name.\<close>

definition ALLOWED_EXTS :: "string list" where
  "ALLOWED_EXTS = [''.250'', ''.265'']"

definition allowed_name :: "string \<Rightarrow> bool" where
  "allowed_name fname = list_ex (\<lambda>ext. suffix ext (lower fname)) ALLOWED_EXTS"

text \<open>Lines 222--227, the command of the corrective second pass.\<close>

definition cmd_fix :: "string \<Rightarrow> pyfloat \<Rightarrow> pyfloat \<Rightarrow> string \<Rightarrow> arg list" where
  "cmd_fix dst_path multiplier fps_for_duration tmp_fixed =
     [Str ''ffmpeg'', Str ''-y'', Str ''-i'', Str dst_path,
      Str ''-filter:v'', Setpts multiplier,
      Str ''-r'', Str (format_fps_value (Some fps_for_duration)),
      Str ''-c:v'', Str ''libx264'', Str ''-preset'', Str ''fast'', Str ''-crf'', Str ''23'',
      Str ''-pix_fmt'', Str ''yuv420p'',
      Str ''-movflags'', Str ''+faststart'', Str tmp_fixed]"

section \<open>The file system, the external tools and the printed log\<close>

text \<open>
  The file system maps a path to the content of the file there. The external tools are
  parameters of the model: the four probes are the nested functions \<^verbatim>\<open>probe_fps\<close>,
  \<^verbatim>\<open>probe_has_audio\<close>, \<^verbatim>\<open>probe_frame_count\<close> and \<^verbatim>\<open>probe_duration\<close>, taken by what they
  return (each catches every exception itself); \<open>ffmpeg\<close> is \<^verbatim>\<open>subprocess.run\<close> of an
  encoder command line, giving the return code and the file system the run leaves behind;
  \<open>replace_raises\<close> says whether \<^verbatim>\<open>os.replace\<close> raises. A run of the encoder is taken to
  return a completed process.
\<close>

type_synonym fs = "string \<Rightarrow> string option"

record env =
  probe_fps :: "string \<Rightarrow> fs \<Rightarrow> pyfloat option"
  probe_has_audio :: "string \<Rightarrow> fs \<Rightarrow> bool"
  probe_frame_count :: "string \<Rightarrow> fs \<Rightarrow> int option"
  probe_duration :: "string \<Rightarrow> fs \<Rightarrow> pyfloat option"
  ffmpeg :: "arg list \<Rightarrow> fs \<Rightarrow> int \<times> fs"
  replace_raises :: "string \<Rightarrow> string \<Rightarrow> fs \<Rightarrow> bool"

text \<open>
  What the function prints, one constructor for each \<^verbatim>\<open>print\<close> of
  \<^verbatim>\<open>convert_250_to_mp4\<close>, with the values it shows (the two prints of a run's captured
  output are one line without content).
\<close>

datatype log_line =
    LogProbing
  | LogFrameRate string string "pyfloat option"
  | LogHasAudio bool
  | LogRecode "arg list"
  | LogFfmpegOutput
  | LogConvFailed int
  | LogRecodeOk
  | LogFramesDuration "int option" "pyfloat option"
  | LogExpected pyfloat pyfloat pyfloat
  | LogLargeDeviation
  | LogFixCmd "arg list"
  | LogFixOutput
  | LogReplaced
  | LogReplaceFailed
  | LogFixFailed
  | LogSkipAutoFix

record world =
  files :: fs
  printed :: "log_line list"
  ffmpeg_runs :: "arg list list"

definition say :: "log_line \<Rightarrow> world \<Rightarrow> world" where
  "say l w = w\<lparr>printed := printed w @ [l]\<rparr>"

definition run_ffmpeg :: "env \<Rightarrow> arg list \<Rightarrow> world \<Rightarrow> int \<times> world" where
  "run_ffmpeg e cmd w =
     (fst (ffmpeg e cmd (files w)),
      w\<lparr>files := snd (ffmpeg e cmd (files w)), ffmpeg_runs := ffmpeg_runs w @ [cmd]\<rparr>)"

text \<open>
  \<^verbatim>\<open>os.replace(src, dst)\<close>: \<open>None\<close> when it raises (the file system is unchanged),
  otherwise the file system with the file moved.
\<close>

definition os_replace :: "env \<Rightarrow> string \<Rightarrow> string \<Rightarrow> fs \<Rightarrow> fs option" where
  "os_replace e src dst f =
     (if f src = None \<or> replace_raises e src dst f then None
      else Some ((f(src := None))(dst := f src)))"

section \<open>The conversion\<close>

text \<open>
  Line 219, \<^verbatim>\<open>abs(multiplier - 1.0) > 0.05\<close>.
\<close>

definition exceeds_tolerance :: "pyfloat \<Rightarrow> bool" where
  "exceeds_tolerance multiplier = (float_lit (5 / 100) < \<bar>fsub multiplier (float_lit 1)\<bar>)"

text \<open>
  Lines 220--240, the body of \<^verbatim>\<open>if abs(multiplier - 1.0) > 0.05:\<close>.
  \<^verbatim>\<open>
  print('Grosse Abweichung erkannt, wende setpts-Reencode an...')
  tmp_fixed = dst_path + '.fixed.mp4'
  cmd_fix = [...]
  print('Fuehre Fix-Command:', cmd_fix)
  pfix = subprocess.run(cmd_fix, capture_output=True, text=True)
  print('fix ffmpeg stdout:', pfix.stdout)
  print('fix ffmpeg stderr:', pfix.stderr)
  if pfix.returncode == 0 and os.path.exists(tmp_fixed):
      try:
          os.replace(tmp_fixed, dst_path)
          print('Erfolgreich ersetzt durch fixierte Datei.')
      except Exception as e:
          print(f'Konnte fixierte Datei nicht ersetzen: {e}')
  else:
      print('Fix-Reencode schlug fehl, behalte original Ausgabedatei.')
  \<close>
\<close>

definition setpts_reencode :: "env \<Rightarrow> string \<Rightarrow> pyfloat \<Rightarrow> pyfloat \<Rightarrow> world \<Rightarrow> world" where
  "setpts_reencode e dst_path multiplier fps_for_duration w =
     (let w1 = say LogLargeDeviation w;
          tmp_fixed = dst_path @ ''.fixed.mp4'';
          c = cmd_fix dst_path multiplier fps_for_duration tmp_fixed;
          w2 = say (LogFixCmd c) w1;
          pfix = run_ffmpeg e c w2;
          w3 = say LogFixOutput (snd pfix)
      in if fst pfix = 0 \<and> files w3 tmp_fixed \<noteq> None
         then (case os_replace e tmp_fixed dst_path (files w3) of
                 Some f \<Rightarrow> say LogReplaced (w3\<lparr>files := f\<rparr>)
               | None \<Rightarrow> say LogReplaceFailed w3)
         else say LogFixFailed w3)"

text \<open>
  Lines 208--242, after the first pass has succeeded.
  \<^verbatim>\<open>
  frames = probe_frame_count(src_path)
  out_duration = probe_duration(dst_path)
  print(f'Quell-Frames: {frames}, Ausgabe-Dauer: {out_duration}')
  fps_for_duration = preferred_fps if preferred_fps and preferred_fps > 0 else None
  if frames and out_duration and fps_for_duration:
      expected_dur = frames / float(fps_for_duration)
      if expected_dur > 0:
          multiplier = expected_dur / out_duration if out_duration > 0 else 1.0
          print(f'Erwartete Dauer: ..., tatsaechliche Dauer: ..., multiplier: ...')
          if abs(multiplier - 1.0) > 0.05:
              ...
  else:
      print('Keine verlaesslichen Frame- oder Duration-Informationen gefunden ...')
  \<close>
\<close>

definition fps_for_duration_of :: "pyfloat \<Rightarrow> pyfloat option" where
  "fps_for_duration_of preferred_fps =
     (if preferred_fps \<noteq> 0 \<and> 0 < preferred_fps then Some preferred_fps else None)"

definition multiplier_of :: "pyfloat \<Rightarrow> pyfloat \<Rightarrow> pyfloat" where
  "multiplier_of expected_dur out_duration =
     (if 0 < out_duration then fdiv expected_dur out_duration else float_lit 1)"

definition check_duration :: "env \<Rightarrow> string \<Rightarrow> string \<Rightarrow> pyfloat \<Rightarrow> world \<Rightarrow> world" where
  "check_duration e src_path dst_path preferred_fps w =
     (let frames = probe_frame_count e src_path (files w);
          out_duration = probe_duration e dst_path (files w);
          w1 = say (LogFramesDuration frames out_duration) w;
          fps_for_duration = fps_for_duration_of preferred_fps
      in if truthy_int frames \<and> truthy_float out_duration \<and> truthy_float fps_for_duration
         then (let expected_dur = fdiv (float_of_int (the frames)) (the fps_for_duration)
               in if 0 < expected_dur
                  then (let multiplier = multiplier_of expected_dur (the out_duration);
                            w2 = say (LogExpected expected_dur (the out_duration) multiplier) w1
                        in if exceeds_tolerance multiplier
                           then setpts_reencode e dst_path multiplier (the fps_for_duration) w2
                           else w2)
                  else w1)
         else say LogSkipAutoFix w1)"

text \<open>
  The whole of \<^verbatim>\<open>convert_250_to_mp4(src_path, dst_path)\<close>: it returns the pair
  \<^verbatim>\<open>(ok, has_audio)\<close>, here together with the world it leaves.
\<close>

definition convert_250_to_mp4 ::
  "env \<Rightarrow> int option \<Rightarrow> string \<Rightarrow> string \<Rightarrow> world \<Rightarrow> (bool \<times> bool) \<times> world" where
  "convert_250_to_mp4 e TARGET_FPS src_path dst_path w =
     (let w1 = say LogProbing w;
          detected_fps = probe_fps e src_path (files w1);
          fps_source = fst (resolve_fps TARGET_FPS detected_fps);
          preferred_fps = snd (resolve_fps TARGET_FPS detected_fps);
          fps_str = format_fps_value (Some preferred_fps);
          w2 = say (LogFrameRate fps_source fps_str detected_fps) w1;
          has_audio = probe_has_audio e src_path (files w2);
          w3 = say (LogHasAudio has_audio) w2;
          c = cmd_recode src_path dst_path has_audio fps_str;
          w4 = say (LogRecode c) w3;
          p2 = run_ffmpeg e c w4;
          w5 = say LogFfmpegOutput (snd p2)
      in if \<not> (fst p2 = 0 \<and> files w5 dst_path \<noteq> None)
         then ((False, has_audio), say (LogConvFailed (fst p2)) w5)
         else ((True, has_audio),
               check_duration e src_path dst_path preferred_fps (say LogRecodeOk w5)))"

section \<open>Notions for stating the properties\<close>

text \<open>The rate the conversion resolves, the command of its first pass and what that run returns.\<close>

definition resolved_rate :: "env \<Rightarrow> int option \<Rightarrow> string \<Rightarrow> fs \<Rightarrow> pyfloat" where
  "resolved_rate e TARGET_FPS src_path f = snd (resolve_fps TARGET_FPS (probe_fps e src_path f))"

definition first_pass_cmd :: "env \<Rightarrow> int option \<Rightarrow> string \<Rightarrow> string \<Rightarrow> fs \<Rightarrow> arg list" where
  "first_pass_cmd e TARGET_FPS src_path dst_path f =
     cmd_recode src_path dst_path (probe_has_audio e src_path f)
       (format_fps_value (Some (resolved_rate e TARGET_FPS src_path f)))"

definition first_pass :: "env \<Rightarrow> int option \<Rightarrow> string \<Rightarrow> string \<Rightarrow> fs \<Rightarrow> int \<times> fs" where
  "first_pass e TARGET_FPS src_path dst_path f =
     ffmpeg e (first_pass_cmd e TARGET_FPS src_path dst_path f) f"

definition first_pass_ok :: "env \<Rightarrow> int option \<Rightarrow> string \<Rightarrow> string \<Rightarrow> fs \<Rightarrow> bool" where
  "first_pass_ok e TARGET_FPS src_path dst_path f =
     (fst (first_pass e TARGET_FPS src_path dst_path f) = 0 \<and>
      snd (first_pass e TARGET_FPS src_path dst_path f) dst_path \<noteq> None)"

text \<open>The lines the conversion prints up to and including the first pass.\<close>

definition first_pass_lines :: "env \<Rightarrow> int option \<Rightarrow> string \<Rightarrow> string \<Rightarrow> fs \<Rightarrow> log_line list" where
  "first_pass_lines e TARGET_FPS src_path dst_path f =
     [LogProbing,
      LogFrameRate (fst (resolve_fps TARGET_FPS (probe_fps e src_path f)))
        (format_fps_value (Some (resolved_rate e TARGET_FPS src_path f))) (probe_fps e src_path f),
      LogHasAudio (probe_has_audio e src_path f),
      LogRecode (first_pass_cmd e TARGET_FPS src_path dst_path f),
      LogFfmpegOutput]"

text \<open>The run of the corrective second pass on a file system, and its temporary file.\<close>

definition tmp_fixed_of :: "string \<Rightarrow> string" where
  "tmp_fixed_of dst_path = dst_path @ ''.fixed.mp4''"

definition second_pass :: "env \<Rightarrow> string \<Rightarrow> pyfloat \<Rightarrow> pyfloat \<Rightarrow> fs \<Rightarrow> int \<times> fs" where
  "second_pass e dst_path multiplier fps_for_duration f =
     ffmpeg e (cmd_fix dst_path multiplier fps_for_duration (tmp_fixed_of dst_path)) f"

section \<open>Scenarios\<close>

text \<open>
  Concrete environments for the examples: probes that return fixed values, and encoders
  that write a file at the output path, the last argument of their command line.
\<close>

definition tool_writes :: "string \<Rightarrow> arg list \<Rightarrow> fs \<Rightarrow> fs" where
  "tool_writes content c f = (case last c of Str p \<Rightarrow> f(p \<mapsto> content) | Setpts m \<Rightarrow> f)"

text \<open>The first pass is the command whose third argument is \<^verbatim>\<open>-fflags\<close>.\<close>

definition is_first_pass :: "arg list \<Rightarrow> bool" where
  "is_first_pass c = (c ! 2 = Str ''-fflags'')"

definition encoder_ok :: "arg list \<Rightarrow> fs \<Rightarrow> int \<times> fs" where
  "encoder_ok c f = (0, tool_writes (if is_first_pass c then ''video'' else ''fixed'') c f)"

definition encoder_empty :: "arg list \<Rightarrow> fs \<Rightarrow> int \<times> fs" where
  "encoder_empty c f = (0, tool_writes '''' c f)"

definition encoder_fails :: "arg list \<Rightarrow> fs \<Rightarrow> int \<times> fs" where
  "encoder_fails c f = (1, f)"

text \<open>An encoder whose second pass exits with status 1 and leaves a partial output file.\<close>

definition encoder_fix_fails :: "arg list \<Rightarrow> fs \<Rightarrow> int \<times> fs" where
  "encoder_fix_fails c f =
     (if is_first_pass c then (0, tool_writes ''video'' c f)
      else (1, tool_writes ''partial'' c f))"

definition scenario ::
  "pyfloat option \<Rightarrow> bool \<Rightarrow> int option \<Rightarrow> pyfloat option \<Rightarrow>
   (arg list \<Rightarrow> fs \<Rightarrow> int \<times> fs) \<Rightarrow> bool \<Rightarrow> env" where
  "scenario detected audio frames duration tool raises =
     \<lparr>probe_fps = (\<lambda>p f. detected), probe_has_audio = (\<lambda>p f. audio),
      probe_frame_count = (\<lambda>p f. frames), probe_duration = (\<lambda>p f. duration),
      ffmpeg = tool, replace_raises = (\<lambda>s d f. raises)\<rparr>"

definition start :: world where
  "start = \<lparr>files = [''cam.265'' \<mapsto> ''raw'', ''cam.250'' \<mapsto> ''raw''], printed = [],
     ffmpeg_runs = []\<rparr>"

section \<open>Basic facts about the model\<close>

lemma files_say [simp]: "files (say l w) = files w"
  by (simp add: say_def)

lemma printed_say [simp]: "printed (say l w) = printed w @ [l]"
  by (simp add: say_def)

lemma ffmpeg_runs_say [simp]: "ffmpeg_runs (say l w) = ffmpeg_runs w"
  by (simp add: say_def)

lemma run_ffmpeg_simps [simp]:
  "fst (run_ffmpeg e c w) = fst (ffmpeg e c (files w))"
  "files (snd (run_ffmpeg e c w)) = snd (ffmpeg e c (files w))"
  "printed (snd (run_ffmpeg e c w)) = printed w"
  "ffmpeg_runs (snd (run_ffmpeg e c w)) = ffmpeg_runs w @ [c]"
  by (simp_all add: run_ffmpeg_def)

text \<open>The conversion, as its first pass followed by the duration check.\<close>

lemma convert_unfold:
  "convert_250_to_mp4 e T src dst w =
     (let f1 = snd (first_pass e T src dst (files w));
          w5 = \<lparr>files = f1,
                printed = printed w @ first_pass_lines e T src dst (files w),
                ffmpeg_runs = ffmpeg_runs w @ [first_pass_cmd e T src dst (files w)]\<rparr>
      in if first_pass_ok e T src dst (files w)
         then ((True, probe_has_audio e src (files w)),
               check_duration e src dst (resolved_rate e T src (files w)) (say LogRecodeOk w5))
         else ((False, probe_has_audio e src (files w)),
               say (LogConvFailed (fst (first_pass e T src dst (files w)))) w5))"
  by (cases w) (simp add: convert_250_to_mp4_def Let_def first_pass_ok_def first_pass_def
      first_pass_cmd_def resolved_rate_def first_pass_lines_def say_def run_ffmpeg_def)

lemma tmp_fixed_neq: "tmp_fixed_of dst \<noteq> dst"
  by (simp add: tmp_fixed_of_def)

text \<open>The second pass, by its three outcomes.\<close>

lemma setpts_reencode_unfold:
  "setpts_reencode e dst m r w =
     (let c = cmd_fix dst m r (tmp_fixed_of dst);
          f2 = snd (second_pass e dst m r (files w));
          w3 = \<lparr>files = f2,
                printed = printed w @ [LogLargeDeviation, LogFixCmd c, LogFixOutput],
                ffmpeg_runs = ffmpeg_runs w @ [c]\<rparr>
      in if fst (second_pass e dst m r (files w)) = 0 \<and> f2 (tmp_fixed_of dst) \<noteq> None
         then (if replace_raises e (tmp_fixed_of dst) dst f2 then say LogReplaceFailed w3
               else say LogReplaced
                      (w3\<lparr>files := (f2(tmp_fixed_of dst := None))(dst := f2 (tmp_fixed_of dst))\<rparr>))
         else say LogFixFailed w3)"
  by (cases w) (auto simp add: setpts_reencode_def Let_def second_pass_def tmp_fixed_of_def
      os_replace_def say_def run_ffmpeg_def)

text \<open>The duration check when the evidence is insufficient.\<close>

lemma check_duration_skip:
  assumes "\<not> (truthy_int (probe_frame_count e src (files w)) \<and>
             truthy_float (probe_duration e dst (files w)) \<and>
             truthy_float (fps_for_duration_of r))"
  shows "check_duration e src dst r w =
           say LogSkipAutoFix
             (say (LogFramesDuration (probe_frame_count e src (files w))
                (probe_duration e dst (files w))) w)"
proof -
  have "(truthy_int (probe_frame_count e src (files w)) \<and>
         truthy_float (probe_duration e dst (files w)) \<and>
         truthy_float (fps_for_duration_of r)) = False"
    using assms by blast
  then show ?thesis
    unfolding check_duration_def Let_def by (simp only: if_False files_say)
qed

text \<open>The duration check when frame count, duration and rate are all usable.\<close>

lemma check_duration_validated:
  assumes "probe_frame_count e src (files w) = Some n" and "n \<noteq> 0"
    and "probe_duration e dst (files w) = Some d" and "d \<noteq> 0"
    and "0 < r"
  shows "check_duration e src dst r w =
           (let expected_dur = fdiv (float_of_int n) r;
                w1 = say (LogFramesDuration (Some n) (Some d)) w
            in if 0 < expected_dur
               then (let m = multiplier_of expected_dur d;
                         w2 = say (LogExpected expected_dur d m) w1
                     in if exceeds_tolerance m then setpts_reencode e dst m r w2 else w2)
               else w1)"
  using assms
  by (simp add: check_duration_def Let_def truthy_int_def truthy_float_def fps_for_duration_of_def)

lemma scenario_probes [simp]:
  "probe_fps (scenario detected audio frames duration tool raises) p f = detected"
  "probe_has_audio (scenario detected audio frames duration tool raises) p f = audio"
  "probe_frame_count (scenario detected audio frames duration tool raises) p f = frames"
  "probe_duration (scenario detected audio frames duration tool raises) p f = duration"
  "ffmpeg (scenario detected audio frames duration tool raises) = tool"
  "replace_raises (scenario detected audio frames duration tool raises) s d f = raises"
  by (simp_all add: scenario_def)

lemma encoder_ok_first_pass:
  "first_pass_ok (scenario detected audio frames duration encoder_ok raises) T src dst f"
  by (simp add: first_pass_ok_def first_pass_def first_pass_cmd_def cmd_recode_def
      encoder_ok_def tool_writes_def is_first_pass_def)

text \<open>The world a successful first pass leaves, before the duration check prints anything.\<close>

lemma convert_skip:
  assumes ok: "first_pass_ok e T src dst (files w)"
    and f1: "f1 = snd (first_pass e T src dst (files w))"
    and skip: "\<not> (truthy_int (probe_frame_count e src f1) \<and>
                 truthy_float (probe_duration e dst f1) \<and>
                 truthy_float (fps_for_duration_of (resolved_rate e T src (files w))))"
  shows "convert_250_to_mp4 e T src dst w =
           ((True, probe_has_audio e src (files w)),
            \<lparr>files = f1,
             printed = printed w @ first_pass_lines e T src dst (files w) @
               [LogRecodeOk,
                LogFramesDuration (probe_frame_count e src f1) (probe_duration e dst f1),
                LogSkipAutoFix],
             ffmpeg_runs = ffmpeg_runs w @ [first_pass_cmd e T src dst (files w)]\<rparr>)"
proof -
  define w5 where "w5 = say LogRecodeOk
      \<lparr>files = f1, printed = printed w @ first_pass_lines e T src dst (files w),
       ffmpeg_runs = ffmpeg_runs w @ [first_pass_cmd e T src dst (files w)]\<rparr>"
  have fw: "files w5 = f1" by (simp add: w5_def)
  have "check_duration e src dst (resolved_rate e T src (files w)) w5 =
          say LogSkipAutoFix
            (say (LogFramesDuration (probe_frame_count e src (files w5))
               (probe_duration e dst (files w5))) w5)"
    by (rule check_duration_skip) (use skip fw in simp)
  then show ?thesis
    using ok by (simp add: convert_unfold Let_def f1 [symmetric] w5_def [symmetric] fw)
      (simp add: w5_def say_def)
qed

lemma runs_setpts_reencode:
  "ffmpeg_runs (setpts_reencode e dst m r w) = ffmpeg_runs w @ [cmd_fix dst m r (tmp_fixed_of dst)]"
  by (simp add: setpts_reencode_unfold Let_def)

lemma runs_check_duration:
  "prefix (ffmpeg_runs w) (ffmpeg_runs (check_duration e src dst r w))"
  by (simp add: check_duration_def Let_def runs_setpts_reencode)

lemma first_run_of_convert:
  "prefix (ffmpeg_runs w @ [first_pass_cmd e T src dst (files w)])
     (ffmpeg_runs (snd (convert_250_to_mp4 e T src dst w)))"
proof (cases "first_pass_ok e T src dst (files w)")
  case True
  have "prefix (ffmpeg_runs (say LogRecodeOk
           \<lparr>files = snd (first_pass e T src dst (files w)),
            printed = printed w @ first_pass_lines e T src dst (files w),
            ffmpeg_runs = ffmpeg_runs w @ [first_pass_cmd e T src dst (files w)]\<rparr>))
        (ffmpeg_runs (check_duration e src dst (resolved_rate e T src (files w))
          (say LogRecodeOk
           \<lparr>files = snd (first_pass e T src dst (files w)),
            printed = printed w @ first_pass_lines e T src dst (files w),
            ffmpeg_runs = ffmpeg_runs w @ [first_pass_cmd e T src dst (files w)]\<rparr>)))"
    by (rule runs_check_duration)
  with True show ?thesis
    by (simp add: convert_unfold Let_def)
next
  case False
  then show ?thesis
    by (simp add: convert_unfold Let_def)
qed

lemma encoder_fix_fails_first_pass:
  "first_pass_ok (scenario detected audio frames duration encoder_fix_fails raises) T src dst f"
  by (simp add: first_pass_ok_def first_pass_def first_pass_cmd_def cmd_recode_def
      encoder_fix_fails_def tool_writes_def is_first_pass_def)

lemma cmd_fix_not_first_pass: "\<not> is_first_pass (cmd_fix dst m r tmp)"
  by (simp add: is_first_pass_def cmd_fix_def)

lemma last_cmd_fix: "last (cmd_fix dst m r tmp) = Str tmp"
  by (simp add: cmd_fix_def)

text \<open>In the scenarios the second pass writes its temporary file and nothing else.\<close>

lemma second_pass_scenarios:
  "second_pass (scenario detected audio frames duration encoder_fix_fails raises) dst m r f =
     (1, f(tmp_fixed_of dst \<mapsto> ''partial''))"
  "second_pass (scenario detected audio frames duration encoder_ok raises) dst m r f =
     (0, f(tmp_fixed_of dst \<mapsto> ''fixed''))"
  by (simp_all add: second_pass_def encoder_fix_fails_def encoder_ok_def tool_writes_def
      cmd_fix_not_first_pass last_cmd_fix)

text \<open>The conversion when frame count, duration and rate are all usable.\<close>

lemma convert_validated:
  assumes ok: "first_pass_ok e T src dst (files w)"
    and f1: "f1 = snd (first_pass e T src dst (files w))"
    and n: "probe_frame_count e src f1 = Some n" "n \<noteq> 0"
    and d: "probe_duration e dst f1 = Some d" "d \<noteq> 0"
    and r: "r = resolved_rate e T src (files w)" "0 < r"
    and ex: "ex = fdiv (float_of_int n) r" "0 < ex"
    and m: "m = multiplier_of ex d"
    and wv: "wv = \<lparr>files = f1,
               printed = printed w @ first_pass_lines e T src dst (files w) @
                 [LogRecodeOk, LogFramesDuration (Some n) (Some d), LogExpected ex d m],
               ffmpeg_runs = ffmpeg_runs w @ [first_pass_cmd e T src dst (files w)]\<rparr>"
  shows "convert_250_to_mp4 e T src dst w =
           ((True, probe_has_audio e src (files w)),
            if exceeds_tolerance m then setpts_reencode e dst m r wv else wv)"
proof -
  define w5 where "w5 = say LogRecodeOk
      \<lparr>files = f1, printed = printed w @ first_pass_lines e T src dst (files w),
       ffmpeg_runs = ffmpeg_runs w @ [first_pass_cmd e T src dst (files w)]\<rparr>"
  have fw: "files w5 = f1" by (simp add: w5_def)
  have w2: "say (LogExpected ex d m) (say (LogFramesDuration (Some n) (Some d)) w5) = wv"
    by (simp add: w5_def wv say_def)
  have "check_duration e src dst r w5 =
          (if exceeds_tolerance m then setpts_reencode e dst m r wv else wv)"
    using ex(2) check_duration_validated [of e src w5 n dst d r]
    by (simp add: fw n d r(2) Let_def ex(1) [symmetric] m [symmetric] w2)
  then show ?thesis
    using ok by (simp add: convert_unfold Let_def f1 [symmetric] w5_def [symmetric] r(1) [symmetric])
qed

section \<open>The formatter\<close>

lemma py_round_nonneg: "0 \<le> x \<Longrightarrow> 0 \<le> py_round x"
  by (simp add: py_round_def Let_def)

lemma is_digit_digit_char: "0 \<le> d \<Longrightarrow> d < 10 \<Longrightarrow> is_digit (digit_char d)"
proof -
  assume "0 \<le> d" "d < 10"
  then have "nat d < length ''0123456789''" by simp
  then show ?thesis
    unfolding is_digit_def digit_char_def by (rule nth_mem)
qed

lemma digits_str_nat: "0 \<le> n \<Longrightarrow> list_all is_digit (str_nat n)"
proof (induction n rule: str_nat.induct)
  case (1 n)
  show ?case
  proof (cases "n < 10")
    case True
    with "1.prems" show ?thesis
      by (subst str_nat.simps) (simp add: is_digit_digit_char)
  next
    case False
    with "1.prems" have "list_all is_digit (str_nat (n div 10))"
      by (intro "1.IH") auto
    moreover have "is_digit (digit_char (n mod 10))"
      by (rule is_digit_digit_char) auto
    ultimately show ?thesis
      using False by (subst str_nat.simps) simp
  qed
qed

lemma dot_not_digit: "\<not> is_digit CHR ''.''"
  by (simp add: is_digit_def)

lemma no_dot_str_nat: "0 \<le> m \<Longrightarrow> CHR ''.'' \<notin> set (str_nat m)"
proof
  assume "0 \<le> m" and "CHR ''.'' \<in> set (str_nat m)"
  then have "is_digit CHR ''.''"
    using digits_str_nat [of m] by (simp add: list_all_iff)
  then show False by (simp add: dot_not_digit)
qed

lemma no_dot_str_int: "CHR ''.'' \<notin> set (str_int n)"
  by (simp add: str_int_def no_dot_str_nat)

lemma decimals_fmt3:
  "length (decimals (fmt3 x)) = 3 \<and> list_all is_digit (decimals (fmt3 x))"
proof -
  define n where "n = py_round (\<bar>x\<bar> * 1000)"
  define ip where "ip = (if x < 0 then ''-'' else '''') @ str_nat (n div 1000)"
  define ds where "ds = [digit_char (n div 100 mod 10), digit_char (n div 10 mod 10), digit_char (n mod 10)]"
  have n0: "0 \<le> n" unfolding n_def by (rule py_round_nonneg) simp
  then have "0 \<le> n div 1000"
    by (simp add: pos_imp_zdiv_nonneg_iff)
  then have "CHR ''.'' \<notin> set (str_nat (n div 1000))"
    by (rule no_dot_str_nat)
  then have nodot: "CHR ''.'' \<notin> set ip"
    by (simp add: ip_def)
  have shape: "fmt3 x = ip @ CHR ''.'' # ds"
    by (simp add: fmt3_def Let_def n_def ip_def ds_def)
  have "dropWhile (\<lambda>c. c \<noteq> CHR ''.'') (ip @ CHR ''.'' # ds) = dropWhile (\<lambda>c. c \<noteq> CHR ''.'') (CHR ''.'' # ds)"
    using nodot by (intro dropWhile_append2) auto
  then have "decimals (fmt3 x) = ds"
    by (simp add: decimals_def shape)
  moreover have "list_all is_digit ds"
    by (simp add: ds_def is_digit_digit_char)
  ultimately show ?thesis by (simp add: ds_def)
qed

lemma near_integer_25: "near_integer (float_lit 25)"
  by code_simp

lemma not_near_integer_2997: "\<not> near_integer (float_lit (2997 / 100))"
  by code_simp

lemma format_25: "format_fps_value (Some (float_lit 25)) = ''25''"
  by code_simp

lemma format_2997: "format_fps_value (Some (float_lit (2997 / 100))) = ''29.970''"
  by code_simp

lemma format_23999: "format_fps_value (Some (float_lit (23999 / 1000))) = ''23.999''"
  by code_simp

lemma format_239991: "format_fps_value (Some (float_lit (239991 / 10000))) = ''24''"
  by code_simp

text \<open>
  The difference \<^verbatim>\<open>23.999 - round(23.999)\<close> is \<open>- 281474976711 / 2 ^ 48\<close>, about
  \<open>- 0.0010000000000012\<close>: its absolute value is not below the float \<^verbatim>\<open>1e-3\<close>.
\<close>

lemma diff_23999:
  "fsub (float_lit (23999 / 1000)) (float_of_int (py_round (float_lit (23999 / 1000))))
     = - 281474976711 / 281474976710656 \<and>
   float_lit (1 / 1000) = 1152921504606847 / 1152921504606846976"
  by code_simp

text \<open>
  Claim C9, as it stands, fails: \<^verbatim>\<open>format_fps_value(23.999)\<close> is \<^verbatim>\<open>'23.999'\<close>, not
  \<^verbatim>\<open>'24'\<close>, because the test of line 31 is strict and the float \<^verbatim>\<open>23.999\<close> lies a little
  more than \<^verbatim>\<open>1e-3\<close> below 24.
\<close>

theorem format_23999_not_24:
  "format_fps_value (Some (float_lit (23999 / 1000))) \<noteq> ''24''"
  by (simp add: format_23999)

text \<open>
  Claim C9, amended: for every frame rate \<open>fps\<close>, when \<^verbatim>\<open>abs(fps - round(fps)) < 1e-3\<close>
  holds in float arithmetic (strictly), the formatter returns the decimal digits of
  \<^verbatim>\<open>round(fps)\<close>, a string without a decimal point; otherwise it returns \<^verbatim>\<open>f"{fps:.3f}"\<close>,
  whose part after the decimal point is exactly three digits. In particular
  \<^verbatim>\<open>format(25.0) = '25'\<close>, \<^verbatim>\<open>format(29.97) = '29.970'\<close>, \<^verbatim>\<open>format(23.9991) = '24'\<close> and
  \<^verbatim>\<open>format(23.999) = '23.999'\<close>.
\<close>

theorem format_fps_value_shape:
  "(near_integer fps \<longrightarrow>
      format_fps_value (Some fps) = str_int (py_round fps) \<and>
      CHR ''.'' \<notin> set (format_fps_value (Some fps))) \<and>
   (\<not> near_integer fps \<longrightarrow>
      format_fps_value (Some fps) = fmt3 fps \<and>
      length (decimals (format_fps_value (Some fps))) = 3 \<and>
      list_all is_digit (decimals (format_fps_value (Some fps)))) \<and>
   format_fps_value (Some (float_lit 25)) = ''25'' \<and>
   format_fps_value (Some (float_lit (2997 / 100))) = ''29.970'' \<and>
   format_fps_value (Some (float_lit (239991 / 10000))) = ''24'' \<and>
   format_fps_value (Some (float_lit (23999 / 1000))) = ''23.999''"
proof -
  have "near_integer fps \<longrightarrow>
      format_fps_value (Some fps) = str_int (py_round fps) \<and>
      CHR ''.'' \<notin> set (format_fps_value (Some fps))"
    by (simp add: format_fps_value_def no_dot_str_int)
  moreover have "\<not> near_integer fps \<longrightarrow>
      format_fps_value (Some fps) = fmt3 fps \<and>
      length (decimals (format_fps_value (Some fps))) = 3 \<and>
      list_all is_digit (decimals (format_fps_value (Some fps)))"
    by (simp add: format_fps_value_def decimals_fmt3)
  ultimately show ?thesis
    using format_25 format_2997 format_239991 format_23999 by blast
qed

theorem format_fps_value_shape_witness:
  "near_integer (float_lit 25) \<and>
   format_fps_value (Some (float_lit 25)) = str_int (py_round (float_lit 25)) \<and>
   \<not> near_integer (float_lit (2997 / 100)) \<and>
   length (decimals (format_fps_value (Some (float_lit (2997 / 100))))) = 3"
  using format_fps_value_shape [of "float_lit 25"]
    format_fps_value_shape [of "float_lit (2997 / 100)"]
    near_integer_25 not_near_integer_2997
  by blast

section \<open>Rounding integers\<close>

text \<open>An integer up to \<open>2 ^ 53\<close> is a float: converting it does not round.\<close>

lemma py_round_of_int: "py_round (of_int m) = m"
  by (simp add: py_round_def Let_def)

lemma bit_length_pos: "0 < n \<Longrightarrow> bit_length n = 1 + bit_length (n div 2)"
  by (subst bit_length.simps) simp

lemma bit_length_nonpos: "n \<le> 0 \<Longrightarrow> bit_length n = 0"
  by (subst bit_length.simps) simp

lemma bit_length_bounds:
  "0 < n \<Longrightarrow> 1 \<le> bit_length n \<and> 2 ^ nat (bit_length n - 1) \<le> n \<and> n < 2 ^ nat (bit_length n)"
proof (induction n rule: bit_length.induct)
  case (1 n)
  show ?case
  proof (cases "n div 2 \<le> 0")
    case True
    with "1.prems" have "n = 1" by auto
    then show ?thesis
      by (simp add: bit_length_pos bit_length_nonpos)
  next
    case False
    then have pos: "0 < n div 2" by simp
    define b where "b = bit_length (n div 2)"
    from "1.IH" "1.prems" pos
    have ih: "1 \<le> b" "2 ^ nat (b - 1) \<le> n div 2" "n div 2 < 2 ^ nat b"
      by (simp_all add: b_def)
    have bl: "bit_length n = 1 + b"
      using "1.prems" by (simp add: bit_length_pos b_def)
    have nb: "nat (bit_length n - 1) = nat b" "nat (bit_length n) = Suc (nat b)"
      using ih(1) by (simp_all add: bl)
    have "nat b = Suc (nat (b - 1))"
      using ih(1) by simp
    then have p: "(2::int) ^ nat b = 2 * 2 ^ nat (b - 1)"
      by simp
    have "(2::int) ^ nat b \<le> n"
      using ih(2) unfolding p by linarith
    moreover have "n < 2 * 2 ^ nat b"
      using ih(3) by linarith
    moreover have "1 \<le> bit_length n"
      using ih(1) by (simp add: bl)
    ultimately show ?thesis
      by (simp add: nb)
  qed
qed

lemma ilog2_of_int: "0 < n \<Longrightarrow> ilog2 (of_int n) = bit_length n - 1"
proof -
  assume n: "0 < n"
  have q: "quotient_of (of_int n) = (n, 1)"
    by simp
  have b1: "bit_length 1 = 1"
    by (simp add: bit_length_pos bit_length_nonpos)
  from bit_length_bounds [OF n]
  have "(2::int) ^ nat (bit_length n - 1) \<le> n" and "1 \<le> bit_length n" by simp_all
  then have "two_pow (bit_length n - 1) \<le> of_int n"
    by (simp add: two_pow_def)
  then show ?thesis
    by (simp add: ilog2_def q b1 Let_def)
qed

lemma float_of_int_exact:
  assumes "0 < n" and "n \<le> 2 ^ 53"
  shows "float_of_int n = of_int n"
proof -
  define b where "b = bit_length n"
  from bit_length_bounds [OF assms(1)]
  have b: "1 \<le> b" "2 ^ nat (b - 1) \<le> n" "n < 2 ^ nat b"
    by (simp_all add: b_def)
  have "nat (b - 1) \<le> 53"
  proof (rule ccontr)
    assume "\<not> nat (b - 1) \<le> 53"
    then have "54 \<le> nat (b - 1)" by simp
    then have "(2::int) ^ 54 \<le> 2 ^ nat (b - 1)"
      by (intro power_increasing) simp_all
    with b(2) assms(2) show False by simp
  qed
  then have b54: "b \<le> 54" by simp
  have e: "max (ilog2 \<bar>of_int n\<bar> - 52) (- 1074) = b - 53"
    using assms(1) b(1) by (simp add: ilog2_of_int b_def)
  have n0: "(of_int n :: rat) \<noteq> 0" using assms(1) by simp
  show ?thesis
  proof (cases "b \<le> 53")
    case True
    then have tp: "two_pow (b - 53) = 1 / 2 ^ nat (53 - b)"
      by (cases "b = 53") (simp_all add: two_pow_def)
    have "of_int n / two_pow (b - 53) = (of_int (n * 2 ^ nat (53 - b)) :: rat)"
      by (simp add: tp)
    then have "py_round (of_int n / two_pow (b - 53)) = n * 2 ^ nat (53 - b)"
      by (simp only: py_round_of_int)
    then show ?thesis
      using n0 by (simp add: float_of_int_def rnd_def e Let_def) (simp add: tp)
  next
    case False
    with b54 have b': "b = 54" by simp
    with b(2) assms(2) have n': "n = 2 ^ 53" by simp
    have "of_int n / two_pow 1 = (of_int (2 ^ 52) :: rat)"
      by (simp add: n' two_pow_def)
    then have "py_round (of_int n / two_pow 1) = 2 ^ 52"
      by (simp only: py_round_of_int)
    then show ?thesis
      using n0 e by (simp add: float_of_int_def rnd_def Let_def b') (simp add: n' two_pow_def)
  qed
qed

section \<open>Frame-rate resolution follows the stated precedence\<close>




section \<open>When the first pass counts as a success\<close>

lemma empty_output_run:
  "fst (convert_250_to_mp4 (scenario None False None None encoder_empty False) None
          ''cam.265'' ''cam.mp4'' start) = (True, False) \<and>
   files (snd (convert_250_to_mp4 (scenario None False None None encoder_empty False) None
          ''cam.265'' ''cam.mp4'' start)) ''cam.mp4'' = Some ''''"
  by code_simp

text \<open>
  Claim C2, as it stands, fails: line 177 tests \<^verbatim>\<open>os.path.exists(dst_path)\<close> and never the
  size of the file. An encoder that exits with status zero and leaves an empty file at the
  output path makes the conversion report success.
\<close>

theorem empty_output_reported_as_success:
  "fst (fst (convert_250_to_mp4 (scenario None False None None encoder_empty False) None
          ''cam.265'' ''cam.mp4'' start)) = True \<and>
   fst (first_pass (scenario None False None None encoder_empty False) None
          ''cam.265'' ''cam.mp4'' (files start)) = 0 \<and>
   snd (first_pass (scenario None False None None encoder_empty False) None
          ''cam.265'' ''cam.mp4'' (files start)) ''cam.mp4'' = Some ''''"
proof -
  have "snd (first_pass (scenario None False None None encoder_empty False) None
          ''cam.265'' ''cam.mp4'' (files start)) ''cam.mp4'' = Some ''''"
    by code_simp
  moreover have "fst (first_pass (scenario None False None None encoder_empty False) None
          ''cam.265'' ''cam.mp4'' (files start)) = 0"
    by code_simp
  ultimately show ?thesis
    using empty_output_run by simp
qed

lemma failing_encoder_run:
  "fst (first_pass (scenario None False None None encoder_fails False) None
          ''cam.265'' ''cam.mp4'' (files start)) = 1 \<and>
   snd (first_pass (scenario None False None None encoder_fails False) None
          ''cam.265'' ''cam.mp4'' (files start)) ''cam.mp4'' = None"
  by code_simp

text \<open>
  Claim C2, amended: the conversion reports success if and only if the encoding tool exits
  with status zero and a file, empty or not, exists at the output path afterwards. In every
  other case it reports failure straight after the first pass: it prints the failure line,
  runs no further command and leaves the file system as the first pass left it.
\<close>

theorem first_pass_decides_success:
  "fst (fst (convert_250_to_mp4 e T src dst w)) =
     (fst (first_pass e T src dst (files w)) = 0 \<and>
      snd (first_pass e T src dst (files w)) dst \<noteq> None) \<and>
   (\<not> fst (fst (convert_250_to_mp4 e T src dst w)) \<longrightarrow>
      files (snd (convert_250_to_mp4 e T src dst w)) = snd (first_pass e T src dst (files w)) \<and>
      ffmpeg_runs (snd (convert_250_to_mp4 e T src dst w)) =
        ffmpeg_runs w @ [first_pass_cmd e T src dst (files w)] \<and>
      last (printed (snd (convert_250_to_mp4 e T src dst w))) =
        LogConvFailed (fst (first_pass e T src dst (files w))))"
  by (simp add: convert_unfold Let_def first_pass_ok_def)

theorem first_pass_decides_success_witness:
  "\<not> fst (fst (convert_250_to_mp4 (scenario None False None None encoder_fails False) None
          ''cam.265'' ''cam.mp4'' start)) \<and>
   last (printed (snd (convert_250_to_mp4 (scenario None False None None encoder_fails False) None
          ''cam.265'' ''cam.mp4'' start))) = LogConvFailed 1 \<and>
   files (snd (convert_250_to_mp4 (scenario None False None None encoder_fails False) None
          ''cam.265'' ''cam.mp4'' start)) ''cam.mp4'' = None"
  using first_pass_decides_success [of "scenario None False None None encoder_fails False" None
      "''cam.265''" "''cam.mp4''" start] failing_encoder_run
  by simp

section \<open>Skipping the duration check\<close>

text \<open>
  Claim C7: when the first pass has succeeded and the frame count of the source, the
  duration of the output or a positive resolved rate is missing, the conversion reports
  success, prints the skip line and nothing about an expected duration or a multiplier,
  runs no second command, and leaves the file system exactly as the first pass left it.
\<close>

theorem validation_skipped_when_missing:
  assumes "first_pass_ok e T src dst (files w)"
    and "f1 = snd (first_pass e T src dst (files w))"
    and "probe_frame_count e src f1 = None \<or> probe_duration e dst f1 = None \<or>
         fps_for_duration_of (resolved_rate e T src (files w)) = None"
  shows "convert_250_to_mp4 e T src dst w =
           ((True, probe_has_audio e src (files w)),
            \<lparr>files = f1,
             printed = printed w @ first_pass_lines e T src dst (files w) @
               [LogRecodeOk,
                LogFramesDuration (probe_frame_count e src f1) (probe_duration e dst f1),
                LogSkipAutoFix],
             ffmpeg_runs = ffmpeg_runs w @ [first_pass_cmd e T src dst (files w)]\<rparr>)"
  using assms(1,2)
proof (rule convert_skip)
  show "\<not> (truthy_int (probe_frame_count e src f1) \<and>
            truthy_float (probe_duration e dst f1) \<and>
            truthy_float (fps_for_duration_of (resolved_rate e T src (files w))))"
    using assms(3) by (auto simp: truthy_int_def truthy_float_def)
qed

theorem validation_skipped_when_missing_witness:
  "fst (convert_250_to_mp4 (scenario None False None (Some 36) encoder_ok False) None
          ''cam.265'' ''cam.mp4'' start) = (True, False) \<and>
   last (printed (snd (convert_250_to_mp4 (scenario None False None (Some 36) encoder_ok False)
          None ''cam.265'' ''cam.mp4'' start))) = LogSkipAutoFix \<and>
   length (ffmpeg_runs (snd (convert_250_to_mp4
          (scenario None False None (Some 36) encoder_ok False)
          None ''cam.265'' ''cam.mp4'' start))) = 1"
proof -
  have "probe_frame_count (scenario None False None (Some 36) encoder_ok False) ''cam.265''
          (snd (first_pass (scenario None False None (Some 36) encoder_ok False) None
             ''cam.265'' ''cam.mp4'' (files start))) = None \<or>
        probe_duration (scenario None False None (Some 36) encoder_ok False) ''cam.mp4''
          (snd (first_pass (scenario None False None (Some 36) encoder_ok False) None
             ''cam.265'' ''cam.mp4'' (files start))) = None \<or>
        fps_for_duration_of (resolved_rate (scenario None False None (Some 36) encoder_ok False)
          None ''cam.265'' (files start)) = None"
    by simp
  from validation_skipped_when_missing [OF encoder_ok_first_pass refl this]
  show ?thesis
    by (simp add: start_def)
qed

text \<open>
  Claim C10: a frame count that is present but zero is treated as an absent one. The
  conversion ends as it does for an environment whose frame-count probe returns
  \<^verbatim>\<open>None\<close>: same result, same files, same single command, the skip line last; only
  the line that prints the probed values shows \<^verbatim>\<open>0\<close> instead of \<^verbatim>\<open>None\<close>.
\<close>

theorem zero_frame_count_skips:
  assumes "first_pass_ok e T src dst (files w)"
    and "f1 = snd (first_pass e T src dst (files w))"
    and "probe_frame_count e src f1 = Some 0"
    and "e' = e\<lparr>probe_frame_count := (\<lambda>p f. None)\<rparr>"
  shows "convert_250_to_mp4 e T src dst w =
           ((True, probe_has_audio e src (files w)),
            \<lparr>files = f1,
             printed = printed w @ first_pass_lines e T src dst (files w) @
               [LogRecodeOk, LogFramesDuration (Some 0) (probe_duration e dst f1),
                LogSkipAutoFix],
             ffmpeg_runs = ffmpeg_runs w @ [first_pass_cmd e T src dst (files w)]\<rparr>) \<and>
         convert_250_to_mp4 e' T src dst w =
           ((True, probe_has_audio e src (files w)),
            \<lparr>files = f1,
             printed = printed w @ first_pass_lines e T src dst (files w) @
               [LogRecodeOk, LogFramesDuration None (probe_duration e dst f1),
                LogSkipAutoFix],
             ffmpeg_runs = ffmpeg_runs w @ [first_pass_cmd e T src dst (files w)]\<rparr>)"
proof
  have "\<not> (truthy_int (probe_frame_count e src f1) \<and>
            truthy_float (probe_duration e dst f1) \<and>
            truthy_float (fps_for_duration_of (resolved_rate e T src (files w))))"
    using assms(3) by (simp add: truthy_int_def)
  from convert_skip [OF assms(1,2) this] assms(3)
  show "convert_250_to_mp4 e T src dst w =
           ((True, probe_has_audio e src (files w)),
            \<lparr>files = f1,
             printed = printed w @ first_pass_lines e T src dst (files w) @
               [LogRecodeOk, LogFramesDuration (Some 0) (probe_duration e dst f1),
                LogSkipAutoFix],
             ffmpeg_runs = ffmpeg_runs w @ [first_pass_cmd e T src dst (files w)]\<rparr>)"
    by simp
next
  have same: "first_pass_cmd e' T src dst (files w) = first_pass_cmd e T src dst (files w)"
    "first_pass e' T src dst (files w) = first_pass e T src dst (files w)"
    "first_pass_lines e' T src dst (files w) = first_pass_lines e T src dst (files w)"
    "resolved_rate e' T src (files w) = resolved_rate e T src (files w)"
    "probe_has_audio e' src (files w) = probe_has_audio e src (files w)"
    "probe_duration e' dst f1 = probe_duration e dst f1"
    "probe_frame_count e' src f1 = None"
    by (simp_all add: assms(4) first_pass_cmd_def first_pass_def first_pass_lines_def
        resolved_rate_def)
  have ok': "first_pass_ok e' T src dst (files w)"
    using assms(1) by (simp add: first_pass_ok_def same)
  have f1': "f1 = snd (first_pass e' T src dst (files w))"
    using assms(2) by (simp add: same)
  have "\<not> (truthy_int (probe_frame_count e' src f1) \<and>
            truthy_float (probe_duration e' dst f1) \<and>
            truthy_float (fps_for_duration_of (resolved_rate e' T src (files w))))"
    by (simp add: same truthy_int_def)
  from convert_skip [OF ok' f1' this]
  show "convert_250_to_mp4 e' T src dst w =
           ((True, probe_has_audio e src (files w)),
            \<lparr>files = f1,
             printed = printed w @ first_pass_lines e T src dst (files w) @
               [LogRecodeOk, LogFramesDuration None (probe_duration e dst f1),
                LogSkipAutoFix],
             ffmpeg_runs = ffmpeg_runs w @ [first_pass_cmd e T src dst (files w)]\<rparr>)"
    by (simp add: same)
qed

theorem zero_frame_count_skips_witness:
  "fst (convert_250_to_mp4 (scenario None False (Some 0) (Some 36) encoder_ok False) (Some 25)
          ''cam.265'' ''cam.mp4'' start) = (True, False) \<and>
   last (printed (snd (convert_250_to_mp4
          (scenario None False (Some 0) (Some 36) encoder_ok False)
          (Some 25) ''cam.265'' ''cam.mp4'' start))) = LogSkipAutoFix \<and>
   length (ffmpeg_runs (snd (convert_250_to_mp4
          (scenario None False (Some 0) (Some 36) encoder_ok False)
          (Some 25) ''cam.265'' ''cam.mp4'' start))) = 1 \<and>
   files (snd (convert_250_to_mp4 (scenario None False (Some 0) (Some 36) encoder_ok False)
          (Some 25) ''cam.265'' ''cam.mp4'' start)) =
   files (snd (convert_250_to_mp4
          ((scenario None False (Some 0) (Some 36) encoder_ok False)
             \<lparr>probe_frame_count := (\<lambda>p f. None)\<rparr>)
          (Some 25) ''cam.265'' ''cam.mp4'' start))"
proof -
  have "probe_frame_count (scenario None False (Some 0) (Some 36) encoder_ok False) ''cam.265''
          (snd (first_pass (scenario None False (Some 0) (Some 36) encoder_ok False) (Some 25)
             ''cam.265'' ''cam.mp4'' (files start))) = Some 0"
    by simp
  from zero_frame_count_skips [OF encoder_ok_first_pass refl this refl]
  show ?thesis
    by (simp add: start_def)
qed

section \<open>The input framing hint of the first pass\<close>

lemma framing_present:
  assumes "endswith (lower src) [''.265'', ''.h265'', ''.hevc''] \<and> \<not> has_audio"
  shows "sublist (input_framing fps_str) (cmd_recode src dst has_audio fps_str)"
proof -
  have "\<exists>ps ss. cmd_recode src dst has_audio fps_str = ps @ input_framing fps_str @ ss"
    unfolding cmd_recode_def using assms by (simp only: simp_thms if_True if_False) blast
  then show ?thesis
    by (simp add: sublist_def)
qed

lemma framing_absent:
  "\<not> (endswith (lower src) [''.265'', ''.h265'', ''.hevc''] \<and> \<not> has_audio) \<Longrightarrow>
   \<not> sublist (input_framing fps_str) (cmd_recode src dst has_audio fps_str)"
  unfolding cmd_recode_def input_framing_def
  by (cases has_audio) (simp_all add: sublist_Cons_right)

lemma raw_name_265: "endswith (lower ''cam.265'') [''.265'', ''.h265'', ''.hevc'']"
  by code_simp

lemma raw_name_250: "\<not> endswith (lower ''cam.250'') [''.265'', ''.h265'', ''.hevc'']"
  by code_simp

lemma allowed_250: "allowed_name ''cam.250''"
  by code_simp

lemma scenario_B_cmd:
  "ffmpeg_runs (snd (convert_250_to_mp4 (scenario None False None None encoder_ok False) None
      ''cam.265'' ''cam.mp4'' start)) =
   [[Str ''ffmpeg'', Str ''-y'', Str ''-fflags'', Str ''+genpts'',
     Str ''-f'', Str ''hevc'', Str ''-framerate'', Str ''25'',
     Str ''-i'', Str ''cam.265'',
     Str ''-c:v'', Str ''libx264'', Str ''-preset'', Str ''fast'', Str ''-crf'', Str ''23'',
     Str ''-pix_fmt'', Str ''yuv420p'', Str ''-r'', Str ''25'', Str ''-filter:v'', Str ''fps=25'',
     Str ''-fps_mode'', Str ''cfr'', Str ''-an'',
     Str ''-avoid_negative_ts'', Str ''make_zero'', Str ''-movflags'', Str ''+faststart'',
     Str ''cam.mp4'']]"
  by code_simp

lemma scenario_250_cmd:
  "ffmpeg_runs (snd (convert_250_to_mp4 (scenario None False None None encoder_ok False) None
      ''cam.250'' ''cam.mp4'' start)) =
   [[Str ''ffmpeg'', Str ''-y'', Str ''-fflags'', Str ''+genpts'',
     Str ''-i'', Str ''cam.250'',
     Str ''-c:v'', Str ''libx264'', Str ''-preset'', Str ''fast'', Str ''-crf'', Str ''23'',
     Str ''-pix_fmt'', Str ''yuv420p'', Str ''-r'', Str ''25'', Str ''-filter:v'', Str ''fps=25'',
     Str ''-fps_mode'', Str ''cfr'', Str ''-an'',
     Str ''-avoid_negative_ts'', Str ''make_zero'', Str ''-movflags'', Str ''+faststart'',
     Str ''cam.mp4'']]"
  by code_simp

lemma framing_250:
  "\<not> sublist (input_framing ''25'')
      (first_pass_cmd (scenario None False None None encoder_ok False) None
         ''cam.250'' ''cam.mp4'' (files start))"
proof -
  have "format_fps_value (Some (resolved_rate (scenario None False None None encoder_ok False)
          None ''cam.250'' (files start))) = ''25''"
    by (simp add: resolved_rate_def resolve_fps_def truthy_int_def truthy_float_def format_25)
  then show ?thesis
    using framing_absent [of "''cam.250''" False "''25''" "''cam.mp4''"] raw_name_250
    by (simp add: first_pass_cmd_def)
qed

text \<open>
  Claim C1, as it stands, fails: \<^verbatim>\<open>.250\<close> is one of the extensions the outer loop accepts,
  but line 157 adds the hint only for names ending in \<^verbatim>\<open>.265\<close>, \<^verbatim>\<open>.h265\<close> or
  \<^verbatim>\<open>.hevc\<close>. A \<^verbatim>\<open>.250\<close> source without audio is encoded without the hint.
\<close>

theorem no_input_framing_for_250:
  "allowed_name ''cam.250'' \<and>
   \<not> probe_has_audio (scenario None False None None encoder_ok False) ''cam.250'' (files start) \<and>
   ffmpeg_runs (snd (convert_250_to_mp4 (scenario None False None None encoder_ok False) None
      ''cam.250'' ''cam.mp4'' start)) =
     [first_pass_cmd (scenario None False None None encoder_ok False) None
        ''cam.250'' ''cam.mp4'' (files start)] \<and>
   \<not> sublist (input_framing ''25'')
      (first_pass_cmd (scenario None False None None encoder_ok False) None
         ''cam.250'' ''cam.mp4'' (files start))"
proof -
  have "ffmpeg_runs (snd (convert_250_to_mp4 (scenario None False None None encoder_ok False) None
      ''cam.250'' ''cam.mp4'' start)) =
     [first_pass_cmd (scenario None False None None encoder_ok False) None
        ''cam.250'' ''cam.mp4'' (files start)]"
    by (simp add: convert_skip [OF encoder_ok_first_pass refl] truthy_int_def start_def)
  then show ?thesis
    using allowed_250 framing_250 by simp
qed

text \<open>
  Claim C1, amended: the first command the conversion runs contains the input framing hint
  (\<^verbatim>\<open>-f hevc -framerate\<close> and the formatted resolved rate, as four consecutive arguments)
  if and only if the lower-cased source path ends in \<^verbatim>\<open>.265\<close>, \<^verbatim>\<open>.h265\<close> or \<^verbatim>\<open>.hevc\<close>
  and the probe detects no audio; for every other source, with audio or with another
  extension such as \<^verbatim>\<open>.250\<close>, the command contains no such hint.
\<close>

theorem input_framing_iff:
  "prefix (ffmpeg_runs w @ [first_pass_cmd e T src dst (files w)])
     (ffmpeg_runs (snd (convert_250_to_mp4 e T src dst w))) \<and>
   sublist (input_framing (format_fps_value (Some (resolved_rate e T src (files w)))))
     (first_pass_cmd e T src dst (files w)) =
   (endswith (lower src) [''.265'', ''.h265'', ''.hevc''] \<and> \<not> probe_has_audio e src (files w))"
  using framing_present framing_absent first_run_of_convert
  unfolding first_pass_cmd_def by blast

theorem input_framing_iff_witness:
  "sublist (input_framing ''25'')
     (first_pass_cmd (scenario None False None None encoder_ok False) None
        ''cam.265'' ''cam.mp4'' (files start)) \<and>
   \<not> sublist (input_framing ''30'')
     (first_pass_cmd (scenario (Some 30) True None None encoder_ok False) None
        ''cam.265'' ''cam.mp4'' (files start)) \<and>
   sublist [Str ''-c:a'', Str ''aac'']
     (first_pass_cmd (scenario (Some 30) True None None encoder_ok False) None
        ''cam.265'' ''cam.mp4'' (files start))"
proof -
  have a: "format_fps_value (Some (resolved_rate (scenario None False None None encoder_ok False)
          None ''cam.265'' (files start))) = ''25''"
    by (simp add: resolved_rate_def resolve_fps_def truthy_int_def truthy_float_def format_25)
  have b: "format_fps_value (Some (resolved_rate (scenario (Some 30) True None None encoder_ok False)
          None ''cam.265'' (files start))) = ''30''"
    by code_simp
  have c: "sublist [Str ''-c:a'', Str ''aac'']
     (first_pass_cmd (scenario (Some 30) True None None encoder_ok False) None
        ''cam.265'' ''cam.mp4'' (files start))"
    by code_simp
  show ?thesis
    using input_framing_iff [of start "scenario None False None None encoder_ok False" None
        "''cam.265''" "''cam.mp4''"]
      input_framing_iff [of start "scenario (Some 30) True None None encoder_ok False" None
        "''cam.265''" "''cam.mp4''"]
      raw_name_265 c
    by (simp add: a b)
qed

section \<open>The tolerance of the duration check\<close>

text \<open>
  In float arithmetic \<^verbatim>\<open>1.05 - 1.0\<close> is \<open>225179981368525 / 2 ^ 52\<close>, about
  \<open>0.050000000000000044\<close>, and the float \<^verbatim>\<open>0.05\<close> is \<open>3602879701896397 / 2 ^ 56\<close>,
  about \<open>0.050000000000000003\<close>.
\<close>

lemma float_105: "float_lit (105 / 100) = 4728779608739021 / 4503599627370496"
  by code_simp

lemma float_005: "float_lit (5 / 100) = 3602879701896397 / 72057594037927936"
  by code_simp

lemma diff_105: "fsub (float_lit (105 / 100)) (float_lit 1) = 225179981368525 / 4503599627370496"
  by code_simp

lemma exceeds_105: "exceeds_tolerance (float_lit (105 / 100))"
  by code_simp

lemma exceeds_1051: "exceeds_tolerance (float_lit (1051 / 1000))"
  by code_simp

lemma within_below_105: "\<not> exceeds_tolerance (4728779608739020 / 4503599627370496)"
  by code_simp

lemma within_104: "\<not> exceeds_tolerance (float_lit (104 / 100))"
  by code_simp

lemma multiplier_21_20:
  "multiplier_of (fdiv (float_of_int 21) (float_of_int 1)) 20 = float_lit (105 / 100)"
  by code_simp

lemma run_21_20:
  "ffmpeg_runs (snd (convert_250_to_mp4 (scenario None False (Some 21) (Some 20) encoder_ok False)
      (Some 1) ''cam.265'' ''cam.mp4'' start)) =
   [first_pass_cmd (scenario None False (Some 21) (Some 20) encoder_ok False) (Some 1)
      ''cam.265'' ''cam.mp4'' (files start),
    cmd_fix ''cam.mp4'' (float_lit (105 / 100)) 1 ''cam.mp4.fixed.mp4'']"
  by code_simp

text \<open>
  Claim C3, as it stands, fails at its boundary: with 21 frames at 1 frame per second and an
  output of 20 seconds the multiplier is the float \<^verbatim>\<open>1.05\<close>, and the test of line 219
  holds for it, so the second pass runs.
\<close>

theorem multiplier_105_triggers_correction:
  "multiplier_of (fdiv (float_of_int 21) (float_of_int 1)) 20 = float_lit (105 / 100) \<and>
   exceeds_tolerance (float_lit (105 / 100)) \<and>
   ffmpeg_runs (snd (convert_250_to_mp4 (scenario None False (Some 21) (Some 20) encoder_ok False)
      (Some 1) ''cam.265'' ''cam.mp4'' start)) =
   [first_pass_cmd (scenario None False (Some 21) (Some 20) encoder_ok False) (Some 1)
      ''cam.265'' ''cam.mp4'' (files start),
    cmd_fix ''cam.mp4'' (float_lit (105 / 100)) 1 ''cam.mp4.fixed.mp4'']"
  using multiplier_21_20 exceeds_105 run_21_20 by simp

text \<open>
  Claim C3, amended: for every validated job (first pass succeeded, non-zero frame count and
  duration, positive rate, positive expected duration) the corrective second pass runs if
  and only if \<^verbatim>\<open>abs(multiplier - 1.0) > 0.05\<close> holds in float arithmetic. A multiplier of
  1.051 triggers it, and so does the float 1.05, which lies above the boundary; the next
  float below 1.05 and the float 1.04 are within tolerance.
\<close>

theorem correction_iff_exceeds_tolerance:
  assumes "first_pass_ok e T src dst (files w)"
    and "f1 = snd (first_pass e T src dst (files w))"
    and "probe_frame_count e src f1 = Some n" and "n \<noteq> 0"
    and "probe_duration e dst f1 = Some d" and "d \<noteq> 0"
    and "r = resolved_rate e T src (files w)" and "0 < r"
    and "ex = fdiv (float_of_int n) r" and "0 < ex"
    and "m = multiplier_of ex d"
  shows "ffmpeg_runs (snd (convert_250_to_mp4 e T src dst w)) =
           ffmpeg_runs w @ [first_pass_cmd e T src dst (files w)] @
           (if exceeds_tolerance m then [cmd_fix dst m r (tmp_fixed_of dst)] else []) \<and>
         exceeds_tolerance m = (float_lit (5 / 100) < \<bar>fsub m (float_lit 1)\<bar>) \<and>
         exceeds_tolerance (float_lit (1051 / 1000)) \<and>
         exceeds_tolerance (float_lit (105 / 100)) \<and>
         \<not> exceeds_tolerance (4728779608739020 / 4503599627370496) \<and>
         \<not> exceeds_tolerance (float_lit (104 / 100))"
proof -
  have "ffmpeg_runs (snd (convert_250_to_mp4 e T src dst w)) =
           ffmpeg_runs w @ [first_pass_cmd e T src dst (files w)] @
           (if exceeds_tolerance m then [cmd_fix dst m r (tmp_fixed_of dst)] else [])"
    by (simp add: convert_validated [OF assms refl] runs_setpts_reencode)
  moreover have "exceeds_tolerance m = (float_lit (5 / 100) < \<bar>fsub m (float_lit 1)\<bar>)"
    by (simp add: exceeds_tolerance_def)
  ultimately show ?thesis
    using exceeds_1051 exceeds_105 within_below_105 within_104 by blast
qed

lemma rate_25:
  "resolved_rate (scenario detected audio frames duration tool raises) (Some 25) src f = 25"
  by (simp add: resolved_rate_def resolve_fps_def truthy_int_def float_of_int_exact)

lemma expected_750_25: "fdiv (float_of_int 750) 25 = 30"
  by code_simp

lemma multiplier_30_36: "multiplier_of 30 36 = 7505999378950827 / 9007199254740992"
  by code_simp

lemma exceeds_30_36: "exceeds_tolerance (7505999378950827 / 9007199254740992)"
  by code_simp

theorem correction_iff_exceeds_tolerance_witness:
  "ffmpeg_runs (snd (convert_250_to_mp4 (scenario None False (Some 750) (Some 36) encoder_ok False)
      (Some 25) ''cam.265'' ''cam.mp4'' start)) =
   [first_pass_cmd (scenario None False (Some 750) (Some 36) encoder_ok False) (Some 25)
      ''cam.265'' ''cam.mp4'' (files start),
    cmd_fix ''cam.mp4'' (7505999378950827 / 9007199254740992) 25 (tmp_fixed_of ''cam.mp4'')]"
proof -
  have "ffmpeg_runs (snd (convert_250_to_mp4
          (scenario None False (Some 750) (Some 36) encoder_ok False)
          (Some 25) ''cam.265'' ''cam.mp4'' start)) =
        ffmpeg_runs start @
        [first_pass_cmd (scenario None False (Some 750) (Some 36) encoder_ok False) (Some 25)
           ''cam.265'' ''cam.mp4'' (files start)] @
        (if exceeds_tolerance (7505999378950827 / 9007199254740992)
         then [cmd_fix ''cam.mp4'' (7505999378950827 / 9007199254740992) 25
                 (tmp_fixed_of ''cam.mp4'')]
         else [])"
    by (rule correction_iff_exceeds_tolerance
          [where n = 750 and d = 36 and r = 25 and ex = 30, THEN conjunct1])
       (simp_all add: encoder_ok_first_pass rate_25 expected_750_25 multiplier_30_36)
  then show ?thesis
    by (simp add: exceeds_30_36 start_def)
qed

section \<open>Expected duration and multiplier\<close>

lemma printed_setpts_reencode:
  "prefix (printed w) (printed (setpts_reencode e dst m r w))"
  by (simp add: setpts_reencode_unfold Let_def)

lemma files_setpts_reencode_cases:
  "files (setpts_reencode e dst m r w) =
     (if fst (second_pass e dst m r (files w)) = 0 \<and>
         snd (second_pass e dst m r (files w)) (tmp_fixed_of dst) \<noteq> None \<and>
         \<not> replace_raises e (tmp_fixed_of dst) dst (snd (second_pass e dst m r (files w)))
      then ((snd (second_pass e dst m r (files w)))(tmp_fixed_of dst := None))
             (dst := snd (second_pass e dst m r (files w)) (tmp_fixed_of dst))
      else snd (second_pass e dst m r (files w)))"
  by (auto simp add: setpts_reencode_unfold Let_def)

lemma last_setpts_reencode:
  "last (printed (setpts_reencode e dst m r w)) =
     (if fst (second_pass e dst m r (files w)) = 0 \<and>
         snd (second_pass e dst m r (files w)) (tmp_fixed_of dst) \<noteq> None
      then (if replace_raises e (tmp_fixed_of dst) dst (snd (second_pass e dst m r (files w)))
            then LogReplaceFailed else LogReplaced)
      else LogFixFailed)"
  by (simp add: setpts_reencode_unfold Let_def)

lemma bounds_30_36:
  "8333 / 10000 < (7505999378950827 / 9007199254740992 :: rat) \<and>
   (7505999378950827 / 9007199254740992 :: rat) < 8334 / 10000"
  by simp

text \<open>
  Claim C6, as it stands, fails for a frame count or a duration that is present but zero:
  line 213 treats both as missing, so the conversion prints the skip line and computes
  neither an expected duration nor a multiplier (the claim gives expected duration 0 and
  multiplier 0 for 0 frames, and multiplier 1.0 for a duration of 0).
\<close>

theorem zero_inputs_give_no_multiplier:
  "printed (snd (convert_250_to_mp4 (scenario None False (Some 0) (Some 36) encoder_ok False)
      (Some 25) ''cam.265'' ''cam.mp4'' start)) =
     first_pass_lines (scenario None False (Some 0) (Some 36) encoder_ok False) (Some 25)
       ''cam.265'' ''cam.mp4'' (files start) @
     [LogRecodeOk, LogFramesDuration (Some 0) (Some 36), LogSkipAutoFix] \<and>
   printed (snd (convert_250_to_mp4 (scenario None False (Some 750) (Some 0) encoder_ok False)
      (Some 25) ''cam.265'' ''cam.mp4'' start)) =
     first_pass_lines (scenario None False (Some 750) (Some 0) encoder_ok False) (Some 25)
       ''cam.265'' ''cam.mp4'' (files start) @
     [LogRecodeOk, LogFramesDuration (Some 750) (Some 0), LogSkipAutoFix]"
  by (simp add: convert_skip [OF encoder_ok_first_pass refl] truthy_int_def truthy_float_def
      start_def)

text \<open>
  Claim C6, amended: when the first pass has succeeded, the frame count and the duration are
  present and non-zero, the resolved rate is positive and the expected duration
  \<^verbatim>\<open>frames / rate\<close> (a float division) is positive, the conversion prints that expected
  duration and the multiplier \<^verbatim>\<open>expected / duration\<close>, or 1.0 when the duration is
  negative; when the multiplier exceeds the tolerance the last command run is the second
  pass with that multiplier, otherwise nothing more is run and the files stay as the first
  pass left them. In particular 750 frames at rate 25 give the expected duration 30.0, and
  with a duration of 36.0 the multiplier is the float nearest to 30/36, between 0.8333 and
  0.8334, which exceeds the tolerance.
\<close>

theorem multiplier_from_frames_and_duration:
  assumes "first_pass_ok e T src dst (files w)"
    and "f1 = snd (first_pass e T src dst (files w))"
    and "probe_frame_count e src f1 = Some n" and "n \<noteq> 0"
    and "probe_duration e dst f1 = Some d" and "d \<noteq> 0"
    and "r = resolved_rate e T src (files w)" and "0 < r"
    and "ex = fdiv (float_of_int n) r" and "0 < ex"
    and "m = (if 0 < d then fdiv ex d else float_lit 1)"
  shows "prefix (printed w @ first_pass_lines e T src dst (files w) @
            [LogRecodeOk, LogFramesDuration (Some n) (Some d), LogExpected ex d m])
           (printed (snd (convert_250_to_mp4 e T src dst w))) \<and>
         (exceeds_tolerance m \<longrightarrow>
            last (ffmpeg_runs (snd (convert_250_to_mp4 e T src dst w))) =
              cmd_fix dst m r (tmp_fixed_of dst)) \<and>
         (\<not> exceeds_tolerance m \<longrightarrow>
            ffmpeg_runs (snd (convert_250_to_mp4 e T src dst w)) =
              ffmpeg_runs w @ [first_pass_cmd e T src dst (files w)] \<and>
            files (snd (convert_250_to_mp4 e T src dst w)) = f1) \<and>
         fdiv (float_of_int 750) 25 = 30 \<and>
         multiplier_of 30 36 = 7505999378950827 / 9007199254740992 \<and>
         8333 / 10000 < (7505999378950827 / 9007199254740992 :: rat) \<and>
         (7505999378950827 / 9007199254740992 :: rat) < 8334 / 10000 \<and>
         exceeds_tolerance (7505999378950827 / 9007199254740992)"
proof -
  have m': "m = multiplier_of ex d"
    by (simp add: assms(11) multiplier_of_def)
  note conv = convert_validated [OF assms(1-10) m' refl]
  have "prefix (printed w @ first_pass_lines e T src dst (files w) @
            [LogRecodeOk, LogFramesDuration (Some n) (Some d), LogExpected ex d m])
           (printed (snd (convert_250_to_mp4 e T src dst w)))"
    using printed_setpts_reencode
      [of "\<lparr>files = f1,
             printed = printed w @ first_pass_lines e T src dst (files w) @
               [LogRecodeOk, LogFramesDuration (Some n) (Some d), LogExpected ex d m],
             ffmpeg_runs = ffmpeg_runs w @ [first_pass_cmd e T src dst (files w)]\<rparr>" e dst m r]
    by (simp add: conv)
  moreover have "exceeds_tolerance m \<longrightarrow>
            last (ffmpeg_runs (snd (convert_250_to_mp4 e T src dst w))) =
              cmd_fix dst m r (tmp_fixed_of dst)"
    by (simp add: conv runs_setpts_reencode)
  moreover have "\<not> exceeds_tolerance m \<longrightarrow>
            ffmpeg_runs (snd (convert_250_to_mp4 e T src dst w)) =
              ffmpeg_runs w @ [first_pass_cmd e T src dst (files w)] \<and>
            files (snd (convert_250_to_mp4 e T src dst w)) = f1"
    by (simp add: conv)
  ultimately show ?thesis
    using expected_750_25 multiplier_30_36 bounds_30_36 exceeds_30_36 by blast
qed

lemma fdiv_30_36: "fdiv 30 36 = 7505999378950827 / 9007199254740992"
  using multiplier_30_36 by (simp add: multiplier_of_def)

theorem multiplier_from_frames_and_duration_witness:
  "LogExpected 30 36 (7505999378950827 / 9007199254740992) \<in>
     set (printed (snd (convert_250_to_mp4
       (scenario None False (Some 750) (Some 36) encoder_ok False)
       (Some 25) ''cam.265'' ''cam.mp4'' start))) \<and>
   last (ffmpeg_runs (snd (convert_250_to_mp4
       (scenario None False (Some 750) (Some 36) encoder_ok False)
       (Some 25) ''cam.265'' ''cam.mp4'' start))) =
     cmd_fix ''cam.mp4'' (7505999378950827 / 9007199254740992) 25 (tmp_fixed_of ''cam.mp4'')"
proof -
  have p: "prefix (printed start @
            first_pass_lines (scenario None False (Some 750) (Some 36) encoder_ok False)
              (Some 25) ''cam.265'' ''cam.mp4'' (files start) @
            [LogRecodeOk, LogFramesDuration (Some 750) (Some 36),
             LogExpected 30 36 (7505999378950827 / 9007199254740992)])
           (printed (snd (convert_250_to_mp4
              (scenario None False (Some 750) (Some 36) encoder_ok False)
              (Some 25) ''cam.265'' ''cam.mp4'' start)))"
    by (rule multiplier_from_frames_and_duration
          [where n = 750 and d = 36 and r = 25 and ex = 30, THEN conjunct1])
       (simp_all add: encoder_ok_first_pass rate_25 expected_750_25 fdiv_30_36)
  have q: "exceeds_tolerance (7505999378950827 / 9007199254740992) \<longrightarrow>
            last (ffmpeg_runs (snd (convert_250_to_mp4
              (scenario None False (Some 750) (Some 36) encoder_ok False)
              (Some 25) ''cam.265'' ''cam.mp4'' start))) =
              cmd_fix ''cam.mp4'' (7505999378950827 / 9007199254740992) 25
                (tmp_fixed_of ''cam.mp4'')"
    by (rule multiplier_from_frames_and_duration
          [where n = 750 and d = 36 and r = 25 and ex = 30, THEN conjunct2, THEN conjunct1])
       (simp_all add: encoder_ok_first_pass rate_25 expected_750_25 fdiv_30_36)
  from p have "LogExpected 30 36 (7505999378950827 / 9007199254740992) \<in>
     set (printed (snd (convert_250_to_mp4
       (scenario None False (Some 750) (Some 36) encoder_ok False)
       (Some 25) ''cam.265'' ''cam.mp4'' start)))"
    using set_mono_prefix by fastforce
  with q show ?thesis
    using exceeds_30_36 by simp
qed

section \<open>The corrective second pass\<close>

lemma tmp_fixed_neq2: "dst \<noteq> tmp_fixed_of dst"
  by (simp add: tmp_fixed_of_def)

text \<open>The last line of the duration check tells how it ended.\<close>

lemma check_duration_replaced:
  assumes "last (printed (check_duration e src dst r w)) = LogReplaced"
  shows "files (check_duration e src dst r w) (tmp_fixed_of dst) = None \<and>
         files (check_duration e src dst r w) dst \<noteq> None"
  using assms
  by (auto simp add: check_duration_def Let_def last_setpts_reencode files_setpts_reencode_cases
      tmp_fixed_neq tmp_fixed_neq2 split: if_splits)

lemma check_duration_failed:
  assumes "last (printed (check_duration e src dst r w)) = LogFixFailed \<or>
           last (printed (check_duration e src dst r w)) = LogReplaceFailed"
  shows "\<exists>m r'. files (check_duration e src dst r w) = snd (second_pass e dst m r' (files w))"
  using assms
  by (auto simp add: check_duration_def Let_def last_setpts_reencode files_setpts_reencode_cases
      split: if_splits)


text \<open>The run of scenario C, for each encoder and each outcome of the replace.\<close>

lemma scenario_C_run:
  assumes "first_pass_ok (scenario None False (Some 750) (Some 36) tool raises) (Some 25)
             ''cam.265'' ''cam.mp4'' (files start)"
  shows "convert_250_to_mp4 (scenario None False (Some 750) (Some 36) tool raises) (Some 25)
           ''cam.265'' ''cam.mp4'' start =
         ((True, False),
          setpts_reencode (scenario None False (Some 750) (Some 36) tool raises) ''cam.mp4''
            (7505999378950827 / 9007199254740992) 25
            \<lparr>files = snd (first_pass (scenario None False (Some 750) (Some 36) tool raises)
                       (Some 25) ''cam.265'' ''cam.mp4'' (files start)),
             printed = printed start @
               first_pass_lines (scenario None False (Some 750) (Some 36) tool raises)
                 (Some 25) ''cam.265'' ''cam.mp4'' (files start) @
               [LogRecodeOk, LogFramesDuration (Some 750) (Some 36),
                LogExpected 30 36 (7505999378950827 / 9007199254740992)],
             ffmpeg_runs = ffmpeg_runs start @
               [first_pass_cmd (scenario None False (Some 750) (Some 36) tool raises)
                  (Some 25) ''cam.265'' ''cam.mp4'' (files start)]\<rparr>)"
  using convert_validated [OF assms refl, where n = 750 and d = 36 and r = 25 and ex = 30
      and m = "7505999378950827 / 9007199254740992", OF _ _ _ _ _ _ _ _ _ refl]
  by (simp add: rate_25 expected_750_25 multiplier_30_36 exceeds_30_36)

lemma first_pass_files_ok:
  "snd (first_pass (scenario detected audio frames duration encoder_ok raises) T
          ''cam.265'' ''cam.mp4'' (files start)) = (files start)(''cam.mp4'' \<mapsto> ''video'')"
  by (simp add: first_pass_def first_pass_cmd_def cmd_recode_def encoder_ok_def tool_writes_def
      is_first_pass_def)

lemma first_pass_files_fix_fails:
  "snd (first_pass (scenario detected audio frames duration encoder_fix_fails raises) T
          ''cam.265'' ''cam.mp4'' (files start)) = (files start)(''cam.mp4'' \<mapsto> ''video'')"
  by (simp add: first_pass_def first_pass_cmd_def cmd_recode_def encoder_fix_fails_def
      tool_writes_def is_first_pass_def)

lemma fix_fails_run:
  "fst (convert_250_to_mp4 (scenario None False (Some 750) (Some 36) encoder_fix_fails False)
          (Some 25) ''cam.265'' ''cam.mp4'' start) = (True, False) \<and>
   last (printed (snd (convert_250_to_mp4
          (scenario None False (Some 750) (Some 36) encoder_fix_fails False)
          (Some 25) ''cam.265'' ''cam.mp4'' start))) = LogFixFailed \<and>
   files (snd (convert_250_to_mp4
          (scenario None False (Some 750) (Some 36) encoder_fix_fails False)
          (Some 25) ''cam.265'' ''cam.mp4'' start)) ''cam.mp4.fixed.mp4'' = Some ''partial'' \<and>
   files (snd (convert_250_to_mp4
          (scenario None False (Some 750) (Some 36) encoder_fix_fails False)
          (Some 25) ''cam.265'' ''cam.mp4'' start)) ''cam.mp4'' = Some ''video''"
  by (simp add: scenario_C_run [OF encoder_fix_fails_first_pass] last_setpts_reencode
      files_setpts_reencode_cases second_pass_scenarios first_pass_files_fix_fails
      tmp_fixed_of_def)

lemma replace_fails_run:
  "fst (convert_250_to_mp4 (scenario None False (Some 750) (Some 36) encoder_ok True)
          (Some 25) ''cam.265'' ''cam.mp4'' start) = (True, False) \<and>
   last (printed (snd (convert_250_to_mp4
          (scenario None False (Some 750) (Some 36) encoder_ok True)
          (Some 25) ''cam.265'' ''cam.mp4'' start))) = LogReplaceFailed \<and>
   files (snd (convert_250_to_mp4
          (scenario None False (Some 750) (Some 36) encoder_ok True)
          (Some 25) ''cam.265'' ''cam.mp4'' start)) ''cam.mp4.fixed.mp4'' = Some ''fixed'' \<and>
   files (snd (convert_250_to_mp4
          (scenario None False (Some 750) (Some 36) encoder_ok True)
          (Some 25) ''cam.265'' ''cam.mp4'' start)) ''cam.mp4'' = Some ''video''"
  by (simp add: scenario_C_run [OF encoder_ok_first_pass] last_setpts_reencode
      files_setpts_reencode_cases second_pass_scenarios first_pass_files_ok
      tmp_fixed_of_def)

lemma replace_ok_run:
  "fst (convert_250_to_mp4 (scenario None False (Some 750) (Some 36) encoder_ok False)
          (Some 25) ''cam.265'' ''cam.mp4'' start) = (True, False) \<and>
   last (printed (snd (convert_250_to_mp4
          (scenario None False (Some 750) (Some 36) encoder_ok False)
          (Some 25) ''cam.265'' ''cam.mp4'' start))) = LogReplaced \<and>
   files (snd (convert_250_to_mp4
          (scenario None False (Some 750) (Some 36) encoder_ok False)
          (Some 25) ''cam.265'' ''cam.mp4'' start)) ''cam.mp4.fixed.mp4'' = None \<and>
   files (snd (convert_250_to_mp4
          (scenario None False (Some 750) (Some 36) encoder_ok False)
          (Some 25) ''cam.265'' ''cam.mp4'' start)) ''cam.mp4'' = Some ''fixed''"
  by (simp add: scenario_C_run [OF encoder_ok_first_pass] last_setpts_reencode
      files_setpts_reencode_cases second_pass_scenarios first_pass_files_ok
      tmp_fixed_of_def)

text \<open>
  Claim C4, as it stands, fails: the function never deletes a file. When the second pass
  exits with a non-zero status after writing a partial file, and when the replace raises,
  the temporary file is still at its path when the function returns.
\<close>

theorem temp_file_left_behind:
  "last (printed (snd (convert_250_to_mp4
          (scenario None False (Some 750) (Some 36) encoder_fix_fails False)
          (Some 25) ''cam.265'' ''cam.mp4'' start))) = LogFixFailed \<and>
   files (snd (convert_250_to_mp4
          (scenario None False (Some 750) (Some 36) encoder_fix_fails False)
          (Some 25) ''cam.265'' ''cam.mp4'' start)) (tmp_fixed_of ''cam.mp4'') = Some ''partial'' \<and>
   last (printed (snd (convert_250_to_mp4
          (scenario None False (Some 750) (Some 36) encoder_ok True)
          (Some 25) ''cam.265'' ''cam.mp4'' start))) = LogReplaceFailed \<and>
   files (snd (convert_250_to_mp4
          (scenario None False (Some 750) (Some 36) encoder_ok True)
          (Some 25) ''cam.265'' ''cam.mp4'' start)) (tmp_fixed_of ''cam.mp4'') = Some ''fixed''"
  using fix_fails_run replace_fails_run by (simp add: tmp_fixed_of_def)

text \<open>
  Claim C4, amended: when the correction ends with a successful replace, the temporary
  file is no longer at its temporary path (it has become the output file). When the second
  pass fails or the replace fails, the function removes nothing: the file system is exactly
  as the second-pass run left it.
\<close>

theorem temp_file_after_correction:
  "(last (printed (snd (convert_250_to_mp4 e T src dst w))) = LogReplaced \<longrightarrow>
      files (snd (convert_250_to_mp4 e T src dst w)) (tmp_fixed_of dst) = None \<and>
      files (snd (convert_250_to_mp4 e T src dst w)) dst \<noteq> None) \<and>
   (last (printed (snd (convert_250_to_mp4 e T src dst w))) = LogFixFailed \<or>
    last (printed (snd (convert_250_to_mp4 e T src dst w))) = LogReplaceFailed \<longrightarrow>
      (\<exists>m r. files (snd (convert_250_to_mp4 e T src dst w)) =
         snd (second_pass e dst m r (snd (first_pass e T src dst (files w))))))"
proof (cases "first_pass_ok e T src dst (files w)")
  case True
  define w5 where "w5 = say LogRecodeOk
      \<lparr>files = snd (first_pass e T src dst (files w)),
       printed = printed w @ first_pass_lines e T src dst (files w),
       ffmpeg_runs = ffmpeg_runs w @ [first_pass_cmd e T src dst (files w)]\<rparr>"
  have c: "snd (convert_250_to_mp4 e T src dst w) =
      check_duration e src dst (resolved_rate e T src (files w)) w5"
    using True by (simp add: convert_unfold Let_def w5_def)
  have f: "files w5 = snd (first_pass e T src dst (files w))"
    by (simp add: w5_def)
  show ?thesis
    unfolding c using check_duration_replaced [of e src dst _ w5]
      check_duration_failed [of e src dst _ w5]
    by (simp add: f)
next
  case False
  then show ?thesis
    by (simp add: convert_unfold Let_def)
qed

theorem temp_file_after_correction_witness:
  "last (printed (snd (convert_250_to_mp4
          (scenario None False (Some 750) (Some 36) encoder_ok False)
          (Some 25) ''cam.265'' ''cam.mp4'' start))) = LogReplaced \<and>
   files (snd (convert_250_to_mp4
          (scenario None False (Some 750) (Some 36) encoder_ok False)
          (Some 25) ''cam.265'' ''cam.mp4'' start)) (tmp_fixed_of ''cam.mp4'') = None \<and>
   files (snd (convert_250_to_mp4
          (scenario None False (Some 750) (Some 36) encoder_ok False)
          (Some 25) ''cam.265'' ''cam.mp4'' start)) ''cam.mp4'' = Some ''fixed''"
  using temp_file_after_correction [of "scenario None False (Some 750) (Some 36) encoder_ok False"
      "Some 25" "''cam.265''" "''cam.mp4''" start] replace_ok_run
  by simp



end
